theory Spec2Isabelle
  imports Complex_Main
begin

section \<open>JavaScript numbers and values\<close>

text \<open>
  A JavaScript number is a finite value, one of the two infinities, or NaN.  Finite
  values are modelled as exact reals: the rounding and the overflow of IEEE doubles
  and the sign of zero are not modelled.  The special values follow IEEE-754, as the
  language does: \<open>Infinity * 0\<close>, \<open>Infinity - Infinity\<close>, \<open>Infinity / Infinity\<close> and
  \<open>0 / 0\<close> are NaN, NaN is absorbing, and every comparison with NaN is false.
\<close>

datatype jsnum = Fin real | PInf | NInf | NaN

fun js_add :: "jsnum \<Rightarrow> jsnum \<Rightarrow> jsnum" where
  "js_add NaN _ = NaN"
| "js_add _ NaN = NaN"
| "js_add (Fin a) (Fin b) = Fin (a + b)"
| "js_add PInf NInf = NaN"
| "js_add NInf PInf = NaN"
| "js_add PInf _ = PInf"
| "js_add NInf _ = NInf"
| "js_add (Fin _) PInf = PInf"
| "js_add (Fin _) NInf = NInf"

fun js_neg :: "jsnum \<Rightarrow> jsnum" where
  "js_neg (Fin a) = Fin (- a)"
| "js_neg PInf = NInf"
| "js_neg NInf = PInf"
| "js_neg NaN = NaN"


text \<open>The sign of a number that is not NaN: \<open>-1\<close>, \<open>0\<close> or \<open>1\<close>.\<close>

fun js_sign :: "jsnum \<Rightarrow> int" where
  "js_sign (Fin a) = (if a < 0 then - 1 else if a = 0 then 0 else 1)"
| "js_sign PInf = 1"
| "js_sign NInf = - 1"
| "js_sign NaN = 0"

definition signed_inf :: "int \<Rightarrow> jsnum" where
  "signed_inf s = (if s = 0 then NaN else if s < 0 then NInf else PInf)"

fun js_mul :: "jsnum \<Rightarrow> jsnum \<Rightarrow> jsnum" where
  "js_mul NaN _ = NaN"
| "js_mul _ NaN = NaN"
| "js_mul (Fin a) (Fin b) = Fin (a * b)"
| "js_mul a b = signed_inf (js_sign a * js_sign b)"

fun js_div :: "jsnum \<Rightarrow> jsnum \<Rightarrow> jsnum" where
  "js_div NaN _ = NaN"
| "js_div _ NaN = NaN"
| "js_div (Fin a) (Fin b) = (if b = 0 then signed_inf (js_sign (Fin a)) else Fin (a / b))"
| "js_div (Fin a) _ = Fin 0"
| "js_div a (Fin b) = signed_inf (js_sign a * (if b < 0 then - 1 else 1))"
| "js_div _ _ = NaN"

fun js_lt :: "jsnum \<Rightarrow> jsnum \<Rightarrow> bool" where
  "js_lt NaN _ = False"
| "js_lt _ NaN = False"
| "js_lt (Fin a) (Fin b) = (a < b)"
| "js_lt NInf NInf = False"
| "js_lt NInf _ = True"
| "js_lt _ NInf = False"
| "js_lt PInf _ = False"
| "js_lt (Fin _) PInf = True"

definition js_gt :: "jsnum \<Rightarrow> jsnum \<Rightarrow> bool" where
  "js_gt a b = js_lt b a"

text \<open>\<open>a <= b\<close>, \<open>a >= b\<close> and \<open>a === b\<close> on numbers; all false when an operand is NaN.\<close>

definition js_le :: "jsnum \<Rightarrow> jsnum \<Rightarrow> bool" where
  "js_le a b = (a \<noteq> NaN \<and> b \<noteq> NaN \<and> \<not> js_lt b a)"



text \<open>\<open>Math.max\<close> and \<open>Math.min\<close> of two arguments: NaN when either argument is NaN.\<close>

definition Math_max :: "jsnum \<Rightarrow> jsnum \<Rightarrow> jsnum" where
  "Math_max a b = (if a = NaN \<or> b = NaN then NaN else if js_lt a b then b else a)"

definition Math_min :: "jsnum \<Rightarrow> jsnum \<Rightarrow> jsnum" where
  "Math_min a b = (if a = NaN \<or> b = NaN then NaN else if js_lt b a then b else a)"

text \<open>\<open>Math.round\<close> rounds to the nearest integer, halves towards \<open>+Infinity\<close>.\<close>

fun Math_round :: "jsnum \<Rightarrow> jsnum" where
  "Math_round (Fin a) = Fin (of_int \<lfloor>a + 1 / 2\<rfloor>)"
| "Math_round x = x"

fun Math_ceil :: "jsnum \<Rightarrow> jsnum" where
  "Math_ceil (Fin a) = Fin (of_int \<lceil>a\<rceil>)"
| "Math_ceil x = x"

text \<open>\<open>Math.pow\<close> for a non-negative integer exponent, the only use in the program.\<close>

fun Math_pow :: "jsnum \<Rightarrow> nat \<Rightarrow> jsnum" where
  "Math_pow _ 0 = Fin 1"
| "Math_pow (Fin a) n = Fin (a ^ n)"
| "Math_pow PInf n = PInf"
| "Math_pow NInf n = (if even n then PInf else NInf)"
| "Math_pow NaN n = NaN"

text \<open>
  The values a raw input can hold.  Objects, arrays, functions, symbols and big integers
  are outside the model.  Strings are byte strings.
\<close>

datatype jsval = Undefined | Null | Bool bool | Num jsnum | Str string

subsection \<open>\<open>Number(string)\<close>\<close>

text \<open>
  The grammar of \<open>StringToNumber\<close>: surrounding white space is dropped, the empty
  string is \<open>0\<close>, then an unsigned hexadecimal, octal or binary integer, or an
  optionally signed \<open>Infinity\<close> or decimal literal with optional fraction and exponent;
  anything else is NaN.  The value of a literal is taken exactly.  Only the ASCII
  white space characters are recognised.
\<close>

definition is_ws :: "char \<Rightarrow> bool" where
  "is_ws c = (c \<in> set [CHR 0x09, CHR 0x0A, CHR 0x0B, CHR 0x0C, CHR 0x0D, CHR 0x20])"

definition trim :: "string \<Rightarrow> string" where
  "trim s = rev (dropWhile is_ws (rev (dropWhile is_ws s)))"

definition digit_of :: "char \<Rightarrow> nat option" where
  "digit_of c =
     (let n = of_char c :: nat in
      if 48 \<le> n \<and> n \<le> 57 then Some (n - 48)
      else if 97 \<le> n \<and> n \<le> 102 then Some (n - 87)
      else if 65 \<le> n \<and> n \<le> 70 then Some (n - 55)
      else None)"

definition is_digit :: "nat \<Rightarrow> char \<Rightarrow> bool" where
  "is_digit base c = (case digit_of c of None \<Rightarrow> False | Some d \<Rightarrow> d < base)"

definition digits_val :: "nat \<Rightarrow> string \<Rightarrow> nat" where
  "digits_val base ds = foldl (\<lambda>acc c. acc * base + (case digit_of c of None \<Rightarrow> 0 | Some d \<Rightarrow> d)) 0 ds"

definition parse_radix :: "nat \<Rightarrow> string \<Rightarrow> jsnum" where
  "parse_radix base ds =
     (if ds \<noteq> [] \<and> list_all (is_digit base) ds then Fin (of_nat (digits_val base ds)) else NaN)"

definition parse_exponent :: "string \<Rightarrow> int option" where
  "parse_exponent s =
     (case s of
        [] \<Rightarrow> Some 0
      | c # t \<Rightarrow>
          if c = CHR ''e'' \<or> c = CHR ''E'' then
            (let (neg, ds) = (case t of
                                [] \<Rightarrow> (False, [])
                              | d # u \<Rightarrow> if d = CHR ''-'' then (True, u)
                                         else if d = CHR ''+'' then (False, u)
                                         else (False, t))
             in if ds \<noteq> [] \<and> list_all (is_digit 10) ds
                then Some (if neg then - int (digits_val 10 ds) else int (digits_val 10 ds))
                else None)
          else None)"

definition parse_unsigned_decimal :: "string \<Rightarrow> jsnum" where
  "parse_unsigned_decimal s =
     (if s = ''Infinity'' then PInf
      else
        let ip = takeWhile (is_digit 10) s;
            r1 = dropWhile (is_digit 10) s;
            (fp, r2) = (case r1 of
                          [] \<Rightarrow> ([], [])
                        | c # t \<Rightarrow> if c = CHR ''.''
                                   then (takeWhile (is_digit 10) t, dropWhile (is_digit 10) t)
                                   else ([], r1))
        in if ip = [] \<and> fp = [] then NaN
           else (case parse_exponent r2 of
                   None \<Rightarrow> NaN
                 | Some e \<Rightarrow>
                     let m = real (digits_val 10 ip) + real (digits_val 10 fp) / 10 ^ length fp
                     in Fin (if 0 \<le> e then m * 10 ^ nat e else m / 10 ^ nat (- e))))"

definition string_to_number :: "string \<Rightarrow> jsnum" where
  "string_to_number s0 =
     (let s = trim s0 in
      case s of
        [] \<Rightarrow> Fin 0
      | c # t \<Rightarrow>
          if c = CHR ''+'' then parse_unsigned_decimal t
          else if c = CHR ''-'' then js_neg (parse_unsigned_decimal t)
          else (case t of
                  [] \<Rightarrow> parse_unsigned_decimal s
                | d # u \<Rightarrow>
                    if c = CHR ''0'' \<and> (d = CHR ''x'' \<or> d = CHR ''X'') then parse_radix 16 u
                    else if c = CHR ''0'' \<and> (d = CHR ''o'' \<or> d = CHR ''O'') then parse_radix 8 u
                    else if c = CHR ''0'' \<and> (d = CHR ''b'' \<or> d = CHR ''B'') then parse_radix 2 u
                    else parse_unsigned_decimal s))"

subsection \<open>Coercions\<close>

text \<open>\<open>Number(v)\<close>.\<close>

fun Number :: "jsval \<Rightarrow> jsnum" where
  "Number Undefined = NaN"
| "Number Null = Fin 0"
| "Number (Bool b) = (if b then Fin 1 else Fin 0)"
| "Number (Num n) = n"
| "Number (Str s) = string_to_number s"

text \<open>Truthiness: \<open>Boolean(v)\<close>, and the test of \<open>||\<close>, \<open>!\<close> and \<open>if\<close>.\<close>

fun truthy :: "jsval \<Rightarrow> bool" where
  "truthy Undefined = False"
| "truthy Null = False"
| "truthy (Bool b) = b"
| "truthy (Num n) = (n \<noteq> Fin 0 \<and> n \<noteq> NaN)"
| "truthy (Str s) = (s \<noteq> [])"

text \<open>\<open>a || b\<close> on values and on numbers.\<close>

definition js_or :: "jsval \<Rightarrow> jsval \<Rightarrow> jsval" where
  "js_or a b = (if truthy a then a else b)"

definition num_or :: "jsnum \<Rightarrow> jsnum \<Rightarrow> jsnum" where
  "num_or a b = (if truthy (Num a) then a else b)"

section \<open>calculator.js: helpers\<close>

text \<open>\<open>round(value, decimals)\<close>; \<open>decimals\<close> defaults to 2.\<close>

definition round_to :: "jsnum \<Rightarrow> nat \<Rightarrow> jsnum" where
  "round_to v decimals =
     (let factor = Math_pow (Fin 10) decimals
      in js_div (Math_round (js_mul v factor)) factor)"

definition round2 :: "jsnum \<Rightarrow> jsnum" where
  "round2 v = round_to v 2"

definition clamp :: "jsnum \<Rightarrow> jsnum \<Rightarrow> jsnum \<Rightarrow> jsnum" where
  "clamp v lo hi = Math_max lo (Math_min hi v)"


fun sum_js :: "jsnum list \<Rightarrow> jsnum" where
  "sum_js [] = Fin 0"
| "sum_js (x # xs) = foldl js_add x xs"

text \<open>\<open>v / 100\<close>, which the program writes for every percentage.\<close>

definition pct :: "jsnum \<Rightarrow> jsnum" where
  "pct v = js_div v (Fin 100)"

section \<open>calculator.js: the input resolver\<close>

text \<open>
  The raw input object: a property that is absent reads as \<open>undefined\<close>.
\<close>

type_synonym raw_inputs = "string \<rightharpoonup> jsval"

definition get :: "raw_inputs \<Rightarrow> string \<Rightarrow> jsval" where
  "get raw k = (case raw k of None \<Rightarrow> Undefined | Some v \<Rightarrow> v)"

text \<open>\<open>v !== undefined ? v : d\<close>.\<close>

definition if_defined :: "jsval \<Rightarrow> jsval \<Rightarrow> jsval" where
  "if_defined v d = (if v \<noteq> Undefined then v else d)"

record prop_defaults =
  pd_mowingTimePerAcre :: jsval
  pd_mowsPerWeek :: jsval
  pd_fuelPerAcre :: jsval

definition PROPERTY_DEFAULTS_commercial :: prop_defaults where
  "PROPERTY_DEFAULTS_commercial =
     \<lparr>pd_mowingTimePerAcre = Num (Fin 45), pd_mowsPerWeek = Num (Fin 1), pd_fuelPerAcre = Num (Fin 0.75)\<rparr>"

definition PROPERTY_DEFAULTS_golf :: prop_defaults where
  "PROPERTY_DEFAULTS_golf =
     \<lparr>pd_mowingTimePerAcre = Num (Fin 60), pd_mowsPerWeek = Num (Fin 3), pd_fuelPerAcre = Num (Fin 1.0)\<rparr>"

definition PROPERTY_DEFAULTS_athletic :: prop_defaults where
  "PROPERTY_DEFAULTS_athletic =
     \<lparr>pd_mowingTimePerAcre = Num (Fin 50), pd_mowsPerWeek = Num (Fin 2), pd_fuelPerAcre = Num (Fin 0.85)\<rparr>"

text \<open>
  \<open>PROPERTY_DEFAULTS\<close> is an object literal, so \<open>PROPERTY_DEFAULTS[pt]\<close> also finds the
  members it inherits from \<open>Object.prototype\<close>.  Each of them is a truthy object without
  the three properties of a table entry, which then read as \<open>undefined\<close>.
\<close>

definition object_prototype_keys :: "string list" where
  "object_prototype_keys =
     [''constructor'', ''toString'', ''toLocaleString'', ''valueOf'', ''hasOwnProperty'',
      ''isPrototypeOf'', ''propertyIsEnumerable'', ''__proto__'', ''__defineGetter__'',
      ''__defineSetter__'', ''__lookupGetter__'', ''__lookupSetter__'']"

text \<open>
  \<open>PROPERTY_DEFAULTS[pt]\<close>, with \<open>None\<close> for \<open>undefined\<close>.  The key of a value that is
  not a string is its string form (\<open>undefined\<close>, \<open>null\<close>, \<open>true\<close>, a number's digits,
  \<open>NaN\<close>, \<open>Infinity\<close>), which names no member.
\<close>

fun PROPERTY_DEFAULTS_lookup :: "jsval \<Rightarrow> prop_defaults option" where
  "PROPERTY_DEFAULTS_lookup (Str s) =
     (if s = ''commercial'' then Some PROPERTY_DEFAULTS_commercial
      else if s = ''golf'' then Some PROPERTY_DEFAULTS_golf
      else if s = ''athletic'' then Some PROPERTY_DEFAULTS_athletic
      else if s \<in> set object_prototype_keys
      then Some \<lparr>pd_mowingTimePerAcre = Undefined, pd_mowsPerWeek = Undefined, pd_fuelPerAcre = Undefined\<rparr>
      else None)"
| "PROPERTY_DEFAULTS_lookup _ = None"

record resolved_inputs =
  i_propertyType :: jsval
  i_acreage :: jsnum
  i_seasonWeeks :: jsnum
  i_mowsPerWeek :: jsval
  i_maintenanceType :: string
  i_employees :: jsnum
  i_hourlyRate :: jsnum
  i_mowingTimePercent :: jsnum
  i_isLeased :: bool
  i_monthlyContract :: jsnum
  i_benefitsRate :: jsnum
  i_fuelCostPerGallon :: jsnum
  i_laborReduction :: jsnum
  i_bufferTime :: jsnum
  i_annualLaborIncrease :: jsnum
  i_fuelPerAcre :: jsnum
  i_annualFuelIncrease :: jsnum
  i_baseEquipmentCost :: jsnum
  i_equipmentCostPerAcre :: jsnum
  i_maintenanceRate :: jsnum
  i_insuranceRate :: jsnum
  i_leasingPremium :: jsnum
  i_roboticMaintenance :: jsnum
  i_electricityPerAcre :: jsnum
  i_co2PerGallon :: jsnum
  i_mowingTimePerAcre :: jsnum
  i_automationLevel :: jsnum
  i_desiredMowingTime :: jsnum

definition resolveInputs :: "raw_inputs \<Rightarrow> resolved_inputs" where
  "resolveInputs raw =
     (let pt = js_or (get raw ''propertyType'') (Str ''commercial'');
          propDefaults = (case PROPERTY_DEFAULTS_lookup pt of
                            Some d \<Rightarrow> d
                          | None \<Rightarrow> PROPERTY_DEFAULTS_commercial)
      in \<lparr>i_propertyType = pt,
          i_acreage = Math_max (num_or (Number (get raw ''acreage'')) (Fin 0)) (Fin 0),
          i_seasonWeeks = Math_max (num_or (Number (get raw ''seasonWeeks'')) (Fin 30)) (Fin 1),
          i_mowsPerWeek = pd_mowsPerWeek propDefaults,
          i_maintenanceType =
            (if get raw ''maintenanceType'' = Str ''outsourced'' then ''outsourced'' else ''inhouse''),
          i_employees = Math_max (num_or (Number (get raw ''employees'')) (Fin 0)) (Fin 0),
          i_hourlyRate = Math_max (num_or (Number (get raw ''hourlyRate'')) (Fin 0)) (Fin 0),
          i_mowingTimePercent =
            clamp (num_or (Number (get raw ''mowingTimePercent'')) (Fin 0)) (Fin 0) (Fin 100),
          i_isLeased = truthy (get raw ''isLeased''),
          i_monthlyContract = Math_max (num_or (Number (get raw ''monthlyContract'')) (Fin 0)) (Fin 0),
          i_benefitsRate =
            clamp (Number (if_defined (get raw ''benefitsRate'') (Num (Fin 12)))) (Fin 0) (Fin 100),
          i_fuelCostPerGallon =
            Math_max (Number (if_defined (get raw ''fuelCostPerGallon'') (Num (Fin 3.50)))) (Fin 0),
          i_laborReduction =
            clamp (Number (if_defined (get raw ''laborReduction'') (Num (Fin 85)))) (Fin 50) (Fin 95),
          i_bufferTime =
            clamp (Number (if_defined (get raw ''bufferTime'') (Num (Fin 15)))) (Fin 5) (Fin 40),
          i_annualLaborIncrease =
            clamp (Number (if_defined (get raw ''annualLaborIncrease'') (Num (Fin 2.5)))) (Fin 0) (Fin 10),
          i_fuelPerAcre =
            Math_max (Number (if_defined (get raw ''fuelPerAcre'') (pd_fuelPerAcre propDefaults))) (Fin 0),
          i_annualFuelIncrease =
            clamp (Number (if_defined (get raw ''annualFuelIncrease'') (Num (Fin 3.5)))) (Fin 0) (Fin 15),
          i_baseEquipmentCost =
            Math_max (Number (if_defined (get raw ''baseEquipmentCost'') (Num (Fin 15000)))) (Fin 0),
          i_equipmentCostPerAcre =
            Math_max (Number (if_defined (get raw ''equipmentCostPerAcre'') (Num (Fin 2000)))) (Fin 0),
          i_maintenanceRate =
            clamp (Number (if_defined (get raw ''maintenanceRate'') (Num (Fin 10)))) (Fin 5) (Fin 25),
          i_insuranceRate =
            clamp (Number (if_defined (get raw ''insuranceRate'') (Num (Fin 5)))) (Fin 1) (Fin 15),
          i_leasingPremium =
            clamp (Number (if_defined (get raw ''leasingPremium'') (Num (Fin 7)))) (Fin 0) (Fin 20),
          i_roboticMaintenance =
            Math_max (Number (if_defined (get raw ''roboticMaintenance'') (Num (Fin 3)))) (Fin 0),
          i_electricityPerAcre =
            Math_max (Number (if_defined (get raw ''electricityPerAcre'') (Num (Fin 1.5)))) (Fin 0),
          i_co2PerGallon =
            Math_max (Number (if_defined (get raw ''co2PerGallon'') (Num (Fin 19.59)))) (Fin 0),
          i_mowingTimePerAcre =
            Math_max (Number (if_defined (get raw ''mowingTimePerAcre'')
                                (pd_mowingTimePerAcre propDefaults))) (Fin 0),
          i_automationLevel =
            clamp (Number (if_defined (get raw ''automationLevel'') (Num (Fin 50)))) (Fin 25) (Fin 100),
          i_desiredMowingTime =
            clamp (Number (if_defined (get raw ''desiredMowingTime'') (Num (Fin 20)))) (Fin 5) (Fin 60)\<rparr>)"

section \<open>calculator.js: the cost and savings engine\<close>









section \<open>calculator.js: the investment evaluator\<close>



section \<open>calculator.js: the five-year projection\<close>





section \<open>The equipment recommender\<close>

record catalog_model =
  cm_id :: string
  cm_name :: string
  cm_shortName :: string
  cm_price :: jsnum
  cm_coverage :: jsnum
  cm_description :: string
  cm_terrain :: string
  cm_categories :: "string list"

record priced =
  p_name :: string
  p_price :: jsnum

text \<open>
  The equipment data: the models, \<open>accessories.referenceStation\<close> and
  \<open>accessories.housing\<close>, the three \<open>services\<close>, and \<open>installation.perUnit\<close> and
  \<open>installation.flat\<close>.  The flags \<open>perSite\<close> and \<open>perUnit\<close> of the source are never
  read and are left out.  Prices and coverages are numbers.
\<close>

record catalog =
  d_models :: "catalog_model list"
  d_referenceStation :: priced
  d_housing :: priced
  d_annualMaintenance :: priced
  d_remoteSupport :: priced
  d_winterStorage :: priced
  d_installation_perUnit :: priced
  d_installation_flat :: priced

definition FALLBACK_DATA :: catalog where
  "FALLBACK_DATA =
     \<lparr>d_models =
        [\<lparr>cm_id = ''520-epos'', cm_name = ''Husqvarna Automower 520 EPOS'',
          cm_shortName = ''520 EPOS'', cm_price = Fin 3299.99, cm_coverage = Fin 1.25,
          cm_description = ''Best for small commercial properties'',
          cm_terrain = ''flat'', cm_categories = [''commercial'']\<rparr>,
         \<lparr>cm_id = ''520h-epos'', cm_name = ''Husqvarna Automower 520H EPOS'',
          cm_shortName = ''520H EPOS'', cm_price = Fin 3299.99, cm_coverage = Fin 1.25,
          cm_description = ''Best for hilly commercial properties and golf courses'',
          cm_terrain = ''hilly'', cm_categories = [''commercial'', ''golf'']\<rparr>,
         \<lparr>cm_id = ''535-awd-epos'', cm_name = ''Husqvarna Automower 535 AWD EPOS'',
          cm_shortName = ''535 AWD EPOS'', cm_price = Fin 4999.99, cm_coverage = Fin 1.25,
          cm_description = ''Best for rough terrain and challenging landscapes'',
          cm_terrain = ''rough'', cm_categories = [''commercial'']\<rparr>,
         \<lparr>cm_id = ''550-epos'', cm_name = ''Husqvarna Automower 550 EPOS'',
          cm_shortName = ''550 EPOS'', cm_price = Fin 5829.99, cm_coverage = Fin 2.5,
          cm_description = ''Best for large commercial properties and athletic fields'',
          cm_terrain = ''flat'', cm_categories = [''commercial'', ''athletic'']\<rparr>,
         \<lparr>cm_id = ''550h-epos'', cm_name = ''Husqvarna Automower 550H EPOS'',
          cm_shortName = ''550H EPOS'', cm_price = Fin 5299.99, cm_coverage = Fin 2.5,
          cm_description = ''Best for large hilly properties and golf courses'',
          cm_terrain = ''hilly'', cm_categories = [''commercial'', ''golf'']\<rparr>],
      d_referenceStation = \<lparr>p_name = ''EPOS RS5 Reference Station'', p_price = Fin 899.99\<rparr>,
      d_housing = \<lparr>p_name = ''Automower House (400/500 series)'', p_price = Fin 171.99\<rparr>,
      d_annualMaintenance = \<lparr>p_name = ''Annual Onsite Maintenance'', p_price = Fin 249.00\<rparr>,
      d_remoteSupport = \<lparr>p_name = ''Remote Support'', p_price = Fin 94.99\<rparr>,
      d_winterStorage = \<lparr>p_name = ''Winter Storage & Service'', p_price = Fin 149.99\<rparr>,
      d_installation_perUnit = \<lparr>p_name = ''Site Installation & Mapping'', p_price = Fin 1500\<rparr>,
      d_installation_flat = \<lparr>p_name = ''Training & App Configuration'', p_price = Fin 500\<rparr>\<rparr>"

text \<open>\<open>getModelByShortName\<close>: the first model with that short name, \<open>None\<close> for \<open>null\<close>.\<close>

fun getModelByShortName :: "catalog_model list \<Rightarrow> string \<Rightarrow> catalog_model option" where
  "getModelByShortName [] shortName = None"
| "getModelByShortName (m # ms) shortName =
     (if cm_shortName m = shortName then Some m else getModelByShortName ms shortName)"

text \<open>
  \<open>toLowerCase\<close> on the ASCII letters.  No character outside ASCII lowers to a letter of
  \<open>golf\<close>, the only string the result is compared with.
\<close>

definition toLowerCase :: "string \<Rightarrow> string" where
  "toLowerCase s =
     map (\<lambda>c. let n = of_char c :: nat in if 65 \<le> n \<and> n \<le> 90 then char_of (n + 32) else c) s"

datatype error = TypeError

record rec_model =
  m_name :: string
  m_shortName :: string
  m_price :: jsnum
  m_coverage :: jsnum
  m_description :: string

record costs_t =
  c_mowers :: jsnum
  c_referenceStation :: jsnum
  c_housing :: jsnum
  c_installation :: jsnum
  c_setup :: jsnum
  c_totalEquipment :: jsnum
  c_totalInvestment :: jsnum
  c_annualService :: jsnum

text \<open>
  An entry of \<open>breakdown\<close> or \<open>annualBreakdown\<close>.  Its label is a name followed, for more
  than one unit, by the multiplication sign and the number of units; the label is kept as
  the name and that optional number.
\<close>

record line_item =
  li_name :: string
  li_units :: "jsnum option"
  li_amount :: jsnum

record recommendation =
  rc_model :: rec_model
  rc_unitsNeeded :: jsnum
  rc_targetAcreage :: jsnum
  rc_costs :: costs_t
  rc_breakdown :: "line_item list"
  rc_annualBreakdown :: "line_item list"

text \<open>
  \<open>recommendEquipment\<close>.  The module variable \<open>_data\<close> is the first argument, \<open>None\<close>
  while it is \<open>null\<close>; \<open>current_data\<close> is its value after \<open>if (!_data) _data = FALLBACK_DATA\<close>,
  which is also the second component of the result.
  \<open>toLowerCase\<close> is a method of strings only, and an empty \<open>models\<close> array leaves
  \<open>model\<close> undefined: both raise a \<open>TypeError\<close>.
\<close>

definition current_data :: "catalog option \<Rightarrow> catalog" where
  "current_data data0 = (case data0 of None \<Rightarrow> FALLBACK_DATA | Some d \<Rightarrow> d)"

definition recommendEquipment ::
  "catalog option \<Rightarrow> jsval \<Rightarrow> jsval \<Rightarrow> jsval \<Rightarrow> jsval
   \<Rightarrow> (error + recommendation) \<times> catalog option" where
  "recommendEquipment data0 propertyType acreage automationLevel isHilly =
     (let data = current_data data0;
          acreage = Math_max (Fin 0) (num_or (Number acreage) (Fin 0));
          automationLevel =
            Math_min (Fin 100) (Math_max (Fin 0) (num_or (Number automationLevel) (Fin 0)));
          isHilly = truthy isHilly
      in (case js_or propertyType (Str ''commercial'') of
            Str s \<Rightarrow>
              (let propertyType = toLowerCase s;
                   targetAcreage = js_mul acreage (pct automationLevel);
                   modelShortName =
                     (if propertyType = ''golf'' \<or> isHilly then
                        (if js_le targetAcreage (Fin 2) then ''520H EPOS'' else ''550H EPOS'')
                      else
                        (if js_le targetAcreage (Fin 2) then ''520 EPOS'' else ''550 EPOS''));
                   found = (case getModelByShortName (d_models data) modelShortName of
                              Some m \<Rightarrow> Some m
                            | None \<Rightarrow> (case d_models data of [] \<Rightarrow> None | m # _ \<Rightarrow> Some m))
               in (case found of
                     None \<Rightarrow> Inl TypeError
                   | Some model \<Rightarrow>
                       (let unitsNeeded = Math_ceil (js_div targetAcreage (cm_coverage model));
                            unitsNeeded = Math_max (Fin 1) unitsNeeded;
                            equipmentCost = js_mul unitsNeeded (cm_price model);
                            referenceStationCost = p_price (d_referenceStation data);
                            housingCost = js_mul unitsNeeded (p_price (d_housing data));
                            totalEquipmentCost =
                              sum_js [equipmentCost, referenceStationCost, housingCost];
                            installationCost =
                              js_mul unitsNeeded (p_price (d_installation_perUnit data));
                            setupCost = p_price (d_installation_flat data);
                            annualMaintenanceCost =
                              js_mul unitsNeeded (p_price (d_annualMaintenance data));
                            remoteSupportCost = p_price (d_remoteSupport data);
                            winterStorageCost =
                              js_mul unitsNeeded (p_price (d_winterStorage data));
                            annualServiceCost =
                              sum_js [annualMaintenanceCost, remoteSupportCost, winterStorageCost];
                            totalInvestment =
                              sum_js [totalEquipmentCost, installationCost, setupCost];
                            unitSuffix = (if js_gt unitsNeeded (Fin 1) then Some unitsNeeded else None)
                        in Inr
                             \<lparr>rc_model =
                                \<lparr>m_name = cm_name model, m_shortName = cm_shortName model,
                                 m_price = cm_price model, m_coverage = cm_coverage model,
                                 m_description = cm_description model\<rparr>,
                              rc_unitsNeeded = unitsNeeded,
                              rc_targetAcreage = targetAcreage,
                              rc_costs =
                                \<lparr>c_mowers = equipmentCost,
                                 c_referenceStation = referenceStationCost,
                                 c_housing = housingCost,
                                 c_installation = installationCost,
                                 c_setup = setupCost,
                                 c_totalEquipment = totalEquipmentCost,
                                 c_totalInvestment = totalInvestment,
                                 c_annualService = annualServiceCost\<rparr>,
                              rc_breakdown =
                                [\<lparr>li_name = cm_name model, li_units = unitSuffix,
                                  li_amount = equipmentCost\<rparr>,
                                 \<lparr>li_name = p_name (d_referenceStation data), li_units = None,
                                  li_amount = referenceStationCost\<rparr>,
                                 \<lparr>li_name = p_name (d_housing data), li_units = unitSuffix,
                                  li_amount = housingCost\<rparr>,
                                 \<lparr>li_name = p_name (d_installation_perUnit data),
                                  li_units = unitSuffix, li_amount = installationCost\<rparr>,
                                 \<lparr>li_name = p_name (d_installation_flat data), li_units = None,
                                  li_amount = setupCost\<rparr>],
                              rc_annualBreakdown =
                                [\<lparr>li_name = p_name (d_annualMaintenance data),
                                  li_units = unitSuffix, li_amount = annualMaintenanceCost\<rparr>,
                                 \<lparr>li_name = p_name (d_remoteSupport data), li_units = None,
                                  li_amount = remoteSupportCost\<rparr>,
                                 \<lparr>li_name = p_name (d_winterStorage data),
                                  li_units = unitSuffix, li_amount = winterStorageCost\<rparr>]\<rparr>)))
          | _ \<Rightarrow> Inl TypeError,
          Some data))"

section \<open>The specification's view of the resolved inputs and of the projection\<close>

text \<open>
  The documented range of a resolved field: a finite number with a lower bound, or with
  both bounds.
\<close>

definition at_least :: "real \<Rightarrow> jsnum \<Rightarrow> bool" where
  "at_least lo x = (case x of Fin r \<Rightarrow> lo \<le> r | _ \<Rightarrow> False)"















section \<open>Properties\<close>

subsection \<open>Evaluation lemmas\<close>

lemma Math_max_Fin [simp]: "Math_max (Fin a) (Fin b) = Fin (max a b)"
  by (simp add: Math_max_def max_def)

lemma Math_min_Fin [simp]: "Math_min (Fin a) (Fin b) = Fin (min a b)"
  by (simp add: Math_min_def min_def)

lemma string_to_number_empty: "string_to_number [] = Fin 0"
  by (simp add: string_to_number_def trim_def)

lemma string_to_number_abc: "string_to_number ''abc'' = NaN"
  by code_simp


subsection \<open>The input resolver\<close>

text \<open>
  Claim C3, as stated: the resolver returns \<open>propertyType = 'commercial'\<close> whenever the
  raw property type is not one of \<open>commercial\<close>, \<open>golf\<close>, \<open>athletic\<close>.  It fails for the
  unrecognised type \<open>residential\<close>, which is returned as it is.
\<close>

theorem resolveInputs_propertyType_counterexample:
  "get [''propertyType'' \<mapsto> Str ''residential''] ''propertyType''
     \<notin> {Str ''commercial'', Str ''golf'', Str ''athletic''}
   \<and> i_propertyType (resolveInputs [''propertyType'' \<mapsto> Str ''residential''])
     \<noteq> Str ''commercial''"
  by (simp add: resolveInputs_def get_def js_or_def Let_def)

text \<open>
  Claim C3, amended: the resolver returns the raw property type unchanged whenever it is
  truthy, recognised or not, and \<open>'commercial'\<close> only when it is absent or falsy; the
  maintenance type is \<open>'outsourced'\<close> exactly when the raw value is that literal string and
  \<open>'inhouse'\<close> in every other case.
\<close>

theorem resolveInputs_types:
  "i_propertyType (resolveInputs raw) =
     (if truthy (get raw ''propertyType'') then get raw ''propertyType'' else Str ''commercial'')
   \<and> i_maintenanceType (resolveInputs raw) =
     (if get raw ''maintenanceType'' = Str ''outsourced'' then ''outsourced'' else ''inhouse'')"
  by (simp add: resolveInputs_def js_or_def Let_def)

text \<open>The amended claim C3 at an unrecognised type, an absent type and an outsourced contract.\<close>

theorem resolveInputs_types_witness:
  "i_propertyType (resolveInputs [''propertyType'' \<mapsto> Str ''residential'']) = Str ''residential''
   \<and> i_propertyType (resolveInputs Map.empty) = Str ''commercial''
   \<and> i_maintenanceType (resolveInputs [''maintenanceType'' \<mapsto> Str ''outsourced'']) = ''outsourced''
   \<and> i_maintenanceType (resolveInputs [''maintenanceType'' \<mapsto> Str ''Outsourced'']) = ''inhouse''"
  using resolveInputs_types [of "[''propertyType'' \<mapsto> Str ''residential'']"]
    resolveInputs_types [of Map.empty]
    resolveInputs_types [of "[''maintenanceType'' \<mapsto> Str ''outsourced'']"]
    resolveInputs_types [of "[''maintenanceType'' \<mapsto> Str ''Outsourced'']"]
  by (simp add: get_def)

text \<open>
  Claim C10, as stated: the clamp of \<open>seasonWeeks\<close> to the minimum \<open>1\<close> applies only to raw
  values that coerce to a number strictly between \<open>0\<close> and \<open>1\<close>.  It fails for \<open>-5\<close>,
  which is not between \<open>0\<close> and \<open>1\<close> and resolves to \<open>1\<close>.
\<close>

theorem resolveInputs_seasonWeeks_counterexample:
  "i_seasonWeeks (resolveInputs [''seasonWeeks'' \<mapsto> Num (Fin (- 5))]) = Fin 1
   \<and> \<not> (js_lt (Fin 0) (Number (Num (Fin (- 5)))) \<and> js_lt (Number (Num (Fin (- 5)))) (Fin 1))"
  by (simp add: resolveInputs_def get_def Let_def num_or_def)

text \<open>
  Claim C10, amended: a raw \<open>seasonWeeks\<close> whose coercion is \<open>0\<close> or NaN resolves to \<open>30\<close>,
  not to \<open>1\<close>; every other value below \<open>1\<close>, negative values included, resolves to the
  minimum \<open>1\<close>; a value of at least \<open>1\<close> is kept.
\<close>

theorem resolveInputs_seasonWeeks:
  "i_seasonWeeks (resolveInputs raw) =
     (let n = Number (get raw ''seasonWeeks'') in
      if n = Fin 0 \<or> n = NaN then Fin 30
      else if js_lt n (Fin 1) then Fin 1
      else n)"
  by (cases "Number (get raw ''seasonWeeks'')")
     (auto simp add: resolveInputs_def Let_def num_or_def Math_max_def max_def)

text \<open>
  The amended claim C10 at the number \<open>0\<close>, the empty string, a non-numeric string, the
  fraction \<open>0.5\<close>, a negative number and an ordinary season length.
\<close>

theorem resolveInputs_seasonWeeks_witness:
  "i_seasonWeeks (resolveInputs [''seasonWeeks'' \<mapsto> Num (Fin 0)]) = Fin 30
   \<and> i_seasonWeeks (resolveInputs [''seasonWeeks'' \<mapsto> Str []]) = Fin 30
   \<and> i_seasonWeeks (resolveInputs [''seasonWeeks'' \<mapsto> Str ''abc'']) = Fin 30
   \<and> i_seasonWeeks (resolveInputs [''seasonWeeks'' \<mapsto> Num (Fin 0.5)]) = Fin 1
   \<and> i_seasonWeeks (resolveInputs [''seasonWeeks'' \<mapsto> Num (Fin (- 5))]) = Fin 1
   \<and> i_seasonWeeks (resolveInputs [''seasonWeeks'' \<mapsto> Num (Fin 26)]) = Fin 26"
  using resolveInputs_seasonWeeks [of "[''seasonWeeks'' \<mapsto> Num (Fin 0)]"]
    resolveInputs_seasonWeeks [of "[''seasonWeeks'' \<mapsto> Str []]"]
    resolveInputs_seasonWeeks [of "[''seasonWeeks'' \<mapsto> Str ''abc'']"]
    resolveInputs_seasonWeeks [of "[''seasonWeeks'' \<mapsto> Num (Fin 0.5)]"]
    resolveInputs_seasonWeeks [of "[''seasonWeeks'' \<mapsto> Num (Fin (- 5))]"]
    resolveInputs_seasonWeeks [of "[''seasonWeeks'' \<mapsto> Num (Fin 26)]"]
  by (simp add: get_def string_to_number_empty string_to_number_abc)

subsection \<open>The equipment recommender\<close>

text \<open>
  Claim C8: for a commercial property of 10 acres at automation level 50, not hilly, with
  the built-in fallback catalog, the recommender computes the target acreage \<open>5\<close>, selects
  the model with short name \<open>550 EPOS\<close> and coverage \<open>2.5\<close>, and returns two units.
\<close>

theorem recommendEquipment_example:
  "\<exists>r. fst (recommendEquipment None (Str ''commercial'') (Num (Fin 10)) (Num (Fin 50))
              (Bool False)) = Inr r
     \<and> rc_targetAcreage r = Fin 5
     \<and> m_shortName (rc_model r) = ''550 EPOS''
     \<and> m_coverage (rc_model r) = Fin 2.5
     \<and> rc_unitsNeeded r = Fin 2"
  by (simp add: recommendEquipment_def FALLBACK_DATA_def js_or_def num_or_def
      pct_def toLowerCase_def js_le_def Let_def current_data_def)

subsection \<open>Rounding and sanitising\<close>

lemma round2_Fin: "round2 (Fin x) = Fin (of_int \<lfloor>x * 100 + 1 / 2\<rfloor> / 100)"
  by (simp add: round2_def round_to_def eval_nat_numeral)




lemma round2_special [simp]: "round2 PInf = PInf" "round2 NInf = NInf" "round2 NaN = NaN"
  by (simp_all add: round2_def round_to_def eval_nat_numeral signed_inf_def)

lemma round_to_special [simp]:
  "round_to PInf d = PInf" "round_to NInf d = NInf" "round_to NaN d = NaN"
  by (cases d; simp add: round_to_def signed_inf_def)+

lemma round2_zero [simp]: "round2 (Fin 0) = Fin 0"
  by (simp add: round2_Fin)




subsection \<open>The cost and savings engine\<close>




subsection \<open>The investment evaluator\<close>




subsection \<open>The equipment recommender: consistency of the costs\<close>


text \<open>
  Claim C9: whenever the recommender returns a record, \<open>costs.totalInvestment\<close> is the sum
  of the five \<open>breakdown\<close> amounts (mowers, reference station, housing, installation,
  setup), \<open>costs.annualService\<close> is the sum of the three \<open>annualBreakdown\<close> amounts, and
  \<open>costs.totalEquipment\<close> is mowers plus reference station plus housing.  The sums are
  taken from the left, in the order of the entries, as the code adds them.
\<close>

theorem recommendEquipment_consistent:
  assumes "fst (recommendEquipment data0 pt ac al hilly) = Inr r"
  shows "map li_amount (rc_breakdown r) =
           [c_mowers (rc_costs r), c_referenceStation (rc_costs r), c_housing (rc_costs r),
            c_installation (rc_costs r), c_setup (rc_costs r)]
     \<and> c_totalInvestment (rc_costs r) = sum_js (map li_amount (rc_breakdown r))
     \<and> length (rc_annualBreakdown r) = 3
     \<and> c_annualService (rc_costs r) = sum_js (map li_amount (rc_annualBreakdown r))
     \<and> c_totalEquipment (rc_costs r) =
         sum_js [c_mowers (rc_costs r), c_referenceStation (rc_costs r), c_housing (rc_costs r)]"
  using assms
  by (auto simp add: recommendEquipment_def Let_def split: jsval.splits option.splits)

text \<open>Claim C9 at a hilly golf course of 10 acres at automation level 80: four units.\<close>

theorem recommendEquipment_consistent_witness:
  "\<exists>r. fst (recommendEquipment None (Str ''golf'') (Num (Fin 10)) (Num (Fin 80)) (Bool True)) = Inr r
     \<and> map li_amount (rc_breakdown r) =
           [Fin 21199.96, Fin 899.99, Fin 687.96, Fin 6000, Fin 500]
     \<and> c_totalInvestment (rc_costs r) = Fin 29287.91
     \<and> c_totalInvestment (rc_costs r) = sum_js (map li_amount (rc_breakdown r))
     \<and> map li_amount (rc_annualBreakdown r) = [Fin 996, Fin 94.99, Fin 599.96]
     \<and> c_annualService (rc_costs r) = Fin 1690.95
     \<and> c_annualService (rc_costs r) = sum_js (map li_amount (rc_annualBreakdown r))
     \<and> c_totalEquipment (rc_costs r) = Fin 22787.91"
proof -
  obtain r where r: "fst (recommendEquipment None (Str ''golf'') (Num (Fin 10)) (Num (Fin 80))
      (Bool True)) = Inr r"
    by (simp add: recommendEquipment_def FALLBACK_DATA_def js_or_def num_or_def
        pct_def toLowerCase_def js_le_def Let_def current_data_def)
  have v: "c_mowers (rc_costs r) = Fin 21199.96" "c_referenceStation (rc_costs r) = Fin 899.99"
    "c_housing (rc_costs r) = Fin 687.96" "c_installation (rc_costs r) = Fin 6000"
    "c_setup (rc_costs r) = Fin 500"
    "map li_amount (rc_annualBreakdown r) = [Fin 996, Fin 94.99, Fin 599.96]"
    using r
    by (auto simp add: recommendEquipment_def FALLBACK_DATA_def js_or_def num_or_def
        pct_def toLowerCase_def js_le_def Let_def current_data_def)
  show ?thesis
    using recommendEquipment_consistent [OF r] r v by simp
qed

subsection \<open>The equipment recommender: units needed\<close>







subsection \<open>The projection: its five entries\<close>

text \<open>
  One turn of the loop appends the entry of its year and moves the running totals on; after
  year 5 the loop returns the array.  So the projection is the list of the entries of the
  years 1 to 5.
\<close>

lemma sum_js_2 [simp]: "sum_js [a, b] = js_add a b"
  and sum_js_3 [simp]: "sum_js [a, b, c] = js_add (js_add a b) c"
  by simp_all







subsection \<open>Amounts in whole cents\<close>

lemma at_least_Fin [simp]: "at_least lo (Fin r) = (lo \<le> r)"
  by (simp add: at_least_def)





















lemma js_add_zero [simp]: "js_add (Fin 0) x = x"
  by (cases x) simp_all








subsection \<open>The projection: its cumulative fields\<close>




subsection \<open>The input resolver: ranges and defaults\<close>











end
